theory Spec2Isabelle
  imports
    Main
    "HOL-Library.Char_ord"
    "HOL-Library.List_Lexorder"
    "HOL-Library.Option_ord"
    "HOL-Library.Product_Lexorder"
    "HOL-Library.Multiset"
    "HOL-Library.Sublist"
begin

section \<open>requirementz.py: requirement lists, version checks and safe writing\<close>

text \<open>
  A shallow embedding of \<^verbatim>\<open>src/requirementz.py\<close>. Python \<^verbatim>\<open>str\<close> values are
  \<^typ>\<open>string\<close> (lists of characters, compared lexicographically as Python compares
  them), exceptions are the left summand of a sum type, the list behind
  \<^verbatim>\<open>Requirementz\<close> (a \<^verbatim>\<open>UserList\<close>) is a HOL list, and the file system the
  \<^verbatim>\<open>SafeWriter\<close> works on is a finite map from paths to contents that every operation
  receives and returns.
\<close>

subsection \<open>Exceptions\<close>

text \<open>
  The exceptions the modelled functions raise, each with its message (or, for
  \<^verbatim>\<open>AttributeError\<close>, the attribute that is missing).
\<close>

datatype error =
    ValueError string
  | AttributeError string
  | EnvironmentError string
  | FatalError string
  | TypeError string

subsection \<open>Versions\<close>

text \<open>
  Modelled from the spec: \<^verbatim>\<open>parse_version\<close> is imported from \<^verbatim>\<open>pkg_resources\<close> and
  its code is not part of the repository. The specification (section 4.2) describes it:
  a version string is split on \<^verbatim>\<open>.\<close> and at a non-numeric suffix into a tuple of
  numeric segments; segments compare numerically; tuples of differing lengths are padded
  with zeros; non-numeric trailing segments (pre-release markers) are ignored.
  \<open>parse_version\<close> yields the tuple, \<open>version_eq\<close> and \<open>version_le\<close> are the
  comparisons of two tuples after padding.
\<close>

definition is_digit :: "char \<Rightarrow> bool" where
  "is_digit c = (CHR ''0'' \<le> c \<and> c \<le> CHR ''9'')"

definition digit_val :: "char \<Rightarrow> nat" where
  "digit_val c = of_char c - of_char CHR ''0''"

definition int_of_digits :: "string \<Rightarrow> nat" where
  "int_of_digits s = foldl (\<lambda>n c. 10 * n + digit_val c) 0 s"

fun split_on :: "char \<Rightarrow> string \<Rightarrow> string list" where
  "split_on c [] = [[]]"
| "split_on c (x # xs) =
     (if x = c then [] # split_on c xs
      else (case split_on c xs of [] \<Rightarrow> [[x]] | y # ys \<Rightarrow> (x # y) # ys))"

text \<open>
  The numeric segments of a list of dot-separated pieces: a piece of digits only is a
  segment; the first piece with anything else ends the tuple, contributing the digits it
  starts with (if any), and everything after it is ignored.
\<close>

fun numeric_segments :: "string list \<Rightarrow> nat list" where
  "numeric_segments [] = []"
| "numeric_segments (s # ss) =
     (let d = takeWhile is_digit s in
      if d = [] then []
      else if d = s then int_of_digits d # numeric_segments ss
      else [int_of_digits d])"

definition parse_version :: "string \<Rightarrow> nat list" where
  "parse_version v = numeric_segments (split_on CHR ''.'' v)"

definition pad_to :: "nat \<Rightarrow> nat list \<Rightarrow> nat list" where
  "pad_to n xs = xs @ replicate (n - length xs) 0"

definition version_eq :: "nat list \<Rightarrow> nat list \<Rightarrow> bool" where
  "version_eq a b = (pad_to (length b) a = pad_to (length a) b)"

definition version_le :: "nat list \<Rightarrow> nat list \<Rightarrow> bool" where
  "version_le a b = (pad_to (length b) a \<le> pad_to (length a) b)"

definition version_lt :: "nat list \<Rightarrow> nat list \<Rightarrow> bool" where
  "version_lt a b = (pad_to (length b) a < pad_to (length a) b)"

subsection \<open>The comparison table and \<open>compare_versions\<close>\<close>

text \<open>
  \<^verbatim>\<open>OP_FUNCS\<close> (lines 111-117) is a dict from the operator to a function of two
  version strings; \<open>a >= b\<close> and \<open>a > b\<close> on versions are \<open>b <= a\<close> and \<open>b < a\<close>.
\<close>

definition OP_FUNCS :: "string \<rightharpoonup> (string \<Rightarrow> string \<Rightarrow> bool)" where
  "OP_FUNCS = map_of
     [(''=='', \<lambda>v1 v2. version_eq (parse_version v1) (parse_version v2)),
      (''>='', \<lambda>v1 v2. version_le (parse_version v2) (parse_version v1)),
      (''<='', \<lambda>v1 v2. version_le (parse_version v1) (parse_version v2)),
      (''>'', \<lambda>v1 v2. version_lt (parse_version v2) (parse_version v1)),
      (''<'', \<lambda>v1 v2. version_lt (parse_version v1) (parse_version v2))]"

text \<open>
  \<^verbatim>\<open>d.get(k, default)\<close> of a Python dict.
\<close>

definition dict_get :: "('k \<rightharpoonup> 'v) \<Rightarrow> 'k \<Rightarrow> 'v \<Rightarrow> 'v" where
  "dict_get d k dflt = (case d k of None \<Rightarrow> dflt | Some v \<Rightarrow> v)"

text \<open>
  \<^verbatim>\<open>compare_versions\<close> (lines 655-671):
  \<^verbatim>\<open>opfunc = OP_FUNCS.get(op, OP_FUNCS['>=']); return opfunc(ver1, ver2)\<close>.
  The subscript \<^verbatim>\<open>OP_FUNCS['>=']\<close> is the entry of a key the table has.
\<close>

definition compare_versions :: "string \<Rightarrow> string \<Rightarrow> string \<Rightarrow> bool" where
  "compare_versions ver1 opr ver2 =
     (let opfunc = dict_get OP_FUNCS opr (the (OP_FUNCS ''>=''))
      in opfunc ver1 ver2)"

subsection \<open>Strings\<close>

text \<open>
  \<^verbatim>\<open>sep.join(parts)\<close>, \<^verbatim>\<open>s.lower()\<close> on ASCII letters (package names are ASCII),
  and left-justification \<^verbatim>\<open>'{:<n}'.format(s)\<close>.
\<close>

fun str_join :: "string \<Rightarrow> string list \<Rightarrow> string" where
  "str_join sep [] = []"
| "str_join sep [x] = x"
| "str_join sep (x # y # ys) = x @ sep @ str_join sep (y # ys)"

definition lower_char :: "char \<Rightarrow> char" where
  "lower_char c =
     (if CHR ''A'' \<le> c \<and> c \<le> CHR ''Z'' then char_of (of_char c + (32::nat)) else c)"

definition lower :: "string \<Rightarrow> string" where
  "lower s = map lower_char s"

definition ljust :: "nat \<Rightarrow> string \<Rightarrow> string" where
  "ljust n s = s @ replicate (n - length s) CHR '' ''"

subsection \<open>Requirements\<close>

text \<open>
  \<^verbatim>\<open>Requirement\<close> is the class of the \<^verbatim>\<open>requirements\<close> library that
  \<^verbatim>\<open>RequirementPlus\<close> extends. The record has the attributes the source reads.
  \<^verbatim>\<open>name\<close> is a \<^verbatim>\<open>str\<close> or \<^verbatim>\<open>None\<close>: a line that gives no name (a local
  path, \<^verbatim>\<open>-e ./mypkg\<close>) leaves it \<^verbatim>\<open>None\<close>. \<^verbatim>\<open>revision\<close> is a \<^verbatim>\<open>str\<close> or
  \<^verbatim>\<open>None\<close> (a version control line without \<^verbatim>\<open>@revision\<close>). \<^verbatim>\<open>extras\<close> is a
  list of \<^verbatim>\<open>str\<close>, \<^verbatim>\<open>specs\<close> a list of (operator, version) pairs,
  \<^verbatim>\<open>local_file\<close> a flag and \<^verbatim>\<open>vcs\<close> the name of the version control system or
  \<^verbatim>\<open>None\<close>; \<^verbatim>\<open>path\<close> and \<^verbatim>\<open>uri\<close> are read only where \<^verbatim>\<open>local_file\<close>
  or \<^verbatim>\<open>vcs\<close> is set, and are set with them. \<^verbatim>\<open>RequirementPlus.__init__\<close>
  (lines 610-615) adds the cache \<^verbatim>\<open>_installed_ver\<close>, which starts as \<^verbatim>\<open>None\<close>.
\<close>

record Requirement =
  name :: "string option"
  extras :: "string list"
  specs :: "(string \<times> string) list"
  local_file :: bool
  vcs :: "string option"
  path :: string
  uri :: string
  revision :: "string option"

record RequirementPlus = Requirement +
  installed_ver :: "Requirement option"

text \<open>
  \<^verbatim>\<open>RequirementPlus.parse\<close> is inherited from the library: the library's parser is a
  parameter \<open>parse\<close> of every function that calls it. It returns a
  \<^verbatim>\<open>Requirement\<close> or raises; the constructor of \<^verbatim>\<open>RequirementPlus\<close> then sets the
  empty cache.
\<close>

type_synonym parser = "string \<Rightarrow> error + Requirement"

definition RequirementPlus_parse :: "parser \<Rightarrow> string \<Rightarrow> error + RequirementPlus" where
  "RequirementPlus_parse parse line =
     (case parse line of
        Inl e \<Rightarrow> Inl e
      | Inr r \<Rightarrow> Inr (Requirement.extend r (RequirementPlus.fields None)))"

text \<open>
  \<^verbatim>\<open>__eq__\<close> (lines 617-621): \<^verbatim>\<open>set(self.specs) == set(other.specs)\<close>; the other
  operand is a requirement, so it has \<^verbatim>\<open>specs\<close>.
\<close>

definition RequirementPlus_eq :: "RequirementPlus \<Rightarrow> RequirementPlus \<Rightarrow> bool" where
  "RequirementPlus_eq self other = (set (specs self) = set (specs other))"

text \<open>
  \<^verbatim>\<open>self.name.lower()\<close>: on \<^verbatim>\<open>None\<close> the attribute \<^verbatim>\<open>lower\<close> does not
  exist and \<^verbatim>\<open>AttributeError\<close> is raised.
\<close>

definition name_lower :: "'a Requirement_scheme \<Rightarrow> error + string" where
  "name_lower r =
     (case name r of
        None \<Rightarrow> Inl (AttributeError ''lower'')
      | Some n \<Rightarrow> Inr (lower n))"

text \<open>
  \<^verbatim>\<open>spec_string\<close> (lines 731-744) and \<^verbatim>\<open>to_str\<close> (lines 746-795) without
  colour (colour wraps the same pieces in terminal codes of the \<^verbatim>\<open>colr\<close> library);
  \<open>align\<close> is the keyword argument of the source. \<^verbatim>\<open>'#egg={}'.format(None)\<close> is
  \<^verbatim>\<open>'#egg=None'\<close>; \<^verbatim>\<open>'@'.join((uri, None))\<close> raises \<^verbatim>\<open>TypeError\<close>; so does
  \<^verbatim>\<open>'{name:<{ljust}}'.format(name=None, ...)\<close>, a format with a width applied to
  \<^verbatim>\<open>None\<close>.
\<close>

definition spec_string :: "'a Requirement_scheme \<Rightarrow> string" where
  "spec_string self = str_join '','' (map (\<lambda>(opr, ver). opr @ '' '' @ ver) (specs self))"

definition to_str :: "'a Requirement_scheme \<Rightarrow> bool \<Rightarrow> error + string" where
  "to_str self align =
     (if local_file self then Inr (str_join '' '' [''-e'', path self])
      else if (case vcs self of None \<Rightarrow> False | Some v \<Rightarrow> v \<noteq> []) then
        (let hashstr = ''#egg='' @ (case name self of None \<Rightarrow> ''None'' | Some n \<Rightarrow> n) in
         case revision self of
           None \<Rightarrow> Inl (TypeError ''sequence item 1: expected str instance, NoneType found'')
         | Some revn \<Rightarrow>
             (let url = str_join ''@'' [uri self, revn];
                  spec = url @ hashstr
              in Inr (str_join '' '' [''-e'', spec])))
      else
        (let extras_str =
               (if extras self \<noteq> [] then ''['' @ str_join '', '' (extras self) @ '']'' else []);
             vers = spec_string self
         in case name self of
              None \<Rightarrow> Inl (TypeError ''unsupported format string passed to NoneType.__format__'')
            | Some n \<Rightarrow> Inr (ljust (if align then 25 else 0) n @ extras_str @ '' '' @ vers)))"

text \<open>\<^verbatim>\<open>__str__\<close> (lines 649-653): \<^verbatim>\<open>self.to_str(color=False)\<close>.\<close>

definition RequirementPlus_str :: "'a Requirement_scheme \<Rightarrow> error + string" where
  "RequirementPlus_str self = to_str self False"

text \<open>
  \<^verbatim>\<open>__hash__\<close> (lines 623-625): \<^verbatim>\<open>hash(str(self))\<close>. The hash of a \<^verbatim>\<open>str\<close> is
  the interpreter's (keyed per process); it is the parameter \<open>str_hash\<close>.
\<close>

definition RequirementPlus_hash :: "(string \<Rightarrow> int) \<Rightarrow> RequirementPlus \<Rightarrow> error + int" where
  "RequirementPlus_hash str_hash self =
     (case RequirementPlus_str self of
        Inl e \<Rightarrow> Inl e
      | Inr s \<Rightarrow> Inr (str_hash s))"

text \<open>
  \<^verbatim>\<open>__lt__\<close> (lines 627-644) on two requirements: the other has the attributes
  \<^verbatim>\<open>name\<close> and \<^verbatim>\<open>specs\<close>, so the \<^verbatim>\<open>getattr\<close> defaults are not reached, and
  two lists of pairs of strings compare lexicographically, so neither is the handler of
  \<^verbatim>\<open>TypeError\<close>. \<^verbatim>\<open>self.name < othername\<close> stands outside that handler and raises
  \<^verbatim>\<open>TypeError\<close> when a name is \<^verbatim>\<open>None\<close>.
\<close>

definition RequirementPlus_lt :: "RequirementPlus \<Rightarrow> RequirementPlus \<Rightarrow> error + bool" where
  "RequirementPlus_lt self other =
     (case (name self, name other) of
        (Some n, Some othername) \<Rightarrow>
          Inr (if \<not> (n < othername) then False else specs self < specs other)
      | _ \<Rightarrow> Inl (TypeError ''< not supported between these instances''))"

subsection \<open>The list of requirements\<close>

text \<open>
  \<^verbatim>\<open>Requirementz.add_line\<close> (lines 806-833). \<^verbatim>\<open>req.name.lower()\<close> is evaluated
  before the loop. The loop runs over a copy of the list with the index;
  \<open>add_line_scan\<close> is the loop from index \<open>i\<close> on, \<open>rest\<close> the part of the copy
  still to visit; it evaluates \<^verbatim>\<open>existingreq.name.lower()\<close> for each entry it
  visits, and the message of its \<^verbatim>\<open>ValueError\<close> is formatted with the string of the
  existing entry. The result is the outcome (\<open>True\<close>: added, \<open>False\<close>: replaced, or
  the exception) with the list as the call leaves it.
\<close>

fun add_line_scan ::
  "string \<Rightarrow> RequirementPlus \<Rightarrow> RequirementPlus list \<Rightarrow> nat \<Rightarrow> RequirementPlus list
   \<Rightarrow> (error + bool) \<times> RequirementPlus list" where
  "add_line_scan reqname req self i [] = (Inr True, self @ [req])"
| "add_line_scan reqname req self i (existingreq # rest) =
     (case name_lower existingreq of
        Inl ex \<Rightarrow> (Inl ex, self)
      | Inr existingname \<Rightarrow>
          if reqname = existingname then
            (if RequirementPlus_eq req existingreq then
               (case RequirementPlus_str existingreq of
                  Inl ex \<Rightarrow> (Inl ex, self)
                | Inr s \<Rightarrow> (Inl (ValueError (''Already a requirement: '' @ s)), self))
             else (Inr False, self[i := req]))
          else add_line_scan reqname req self (Suc i) rest)"

definition add_line ::
  "parser \<Rightarrow> RequirementPlus list \<Rightarrow> string \<Rightarrow> (error + bool) \<times> RequirementPlus list" where
  "add_line parse self line =
     (case RequirementPlus_parse parse line of
        Inl (ValueError ex) \<Rightarrow> (Inl (ValueError (''Invalid requirement spec.: '' @ ex)), self)
      | Inl e \<Rightarrow> (Inl e, self)
      | Inr req \<Rightarrow>
          (case name_lower req of
             Inl ex \<Rightarrow> (Inl ex, self)
           | Inr reqname \<Rightarrow> add_line_scan reqname req self 0 self))"

text \<open>
  The order in which \<^verbatim>\<open>write\<close> (line 914) puts the requirements:
  \<^verbatim>\<open>sorted(self, key=lambda r: r.name)\<close>. The keys are the names. A list of fewer
  than two entries is returned without a comparison. In a longer list the sort compares
  every key with another one at least once, and a comparison with \<^verbatim>\<open>None\<close> raises
  \<^verbatim>\<open>TypeError\<close>. When all keys are strings the result is that of a stable sort, as
  \<open>sort_key\<close> is (the order on \<open>string option\<close> is that of the strings).
\<close>

definition sorted_by_name :: "RequirementPlus list \<Rightarrow> error + RequirementPlus list" where
  "sorted_by_name self =
     (if 2 \<le> length self \<and> list_ex (\<lambda>r. name r = None) self
      then Inl (TypeError ''< not supported between these instances'')
      else Inr (sort_key name self))"

subsection \<open>Installed packages and satisfaction\<close>

text \<open>
  \<^verbatim>\<open>PKGS\<close> (line 1149) is a dict from the lower-cased project name to the installed
  distribution, loaded once and never changed; it is a parameter of the functions that
  read it. Of a distribution the source reads \<^verbatim>\<open>project_name\<close>,
  \<^verbatim>\<open>parsed_version.base_version\<close> and \<^verbatim>\<open>location\<close>. (The handler for a
  \<^verbatim>\<open>parsed_version\<close> without \<^verbatim>\<open>base_version\<close>, lines 686-695, is for old
  versions of setuptools; a distribution here has the attribute.)
\<close>

record Distribution =
  project_name :: string
  base_version :: string
  location :: string

type_synonym packages = "string \<rightharpoonup> Distribution"

text \<open>
  \<^verbatim>\<open>installed_version\<close> (lines 673-699): the cached requirement if there is one;
  else the distribution is looked up, and \<^verbatim>\<open>' '.join((p.project_name, '==', ver))\<close>
  is parsed, cached and returned. The result comes with the requirement as the call leaves
  it (its cache may be filled).
\<close>

definition installed_version ::
  "parser \<Rightarrow> packages \<Rightarrow> RequirementPlus \<Rightarrow> (error + Requirement option) \<times> RequirementPlus" where
  "installed_version parse PKGS self =
     (case installed_ver self of
        Some cached \<Rightarrow> (Inr (Some cached), self)
      | None \<Rightarrow>
          (case name_lower self of
             Inl ex \<Rightarrow> (Inl ex, self)
           | Inr key \<Rightarrow>
               (case PKGS key of
                  None \<Rightarrow> (Inr None, self\<lparr>installed_ver := None\<rparr>)
                | Some p \<Rightarrow>
                    (let ver = base_version p in
                     case RequirementPlus_parse parse
                            (str_join '' '' [project_name p, ''=='', ver]) of
                       Inl e \<Rightarrow> (Inl e, self)
                     | Inr r \<Rightarrow>
                         (Inr (Some (Requirement.truncate r)),
                          self\<lparr>installed_ver := Some (Requirement.truncate r)\<rparr>)))))"

text \<open>
  \<^verbatim>\<open>satisfied\<close> (lines 701-729). The argument \<^verbatim>\<open>against\<close> is \<^verbatim>\<open>None\<close>, a
  version string, an object with \<^verbatim>\<open>specs\<close>, or anything else (for which the source
  raises \<^verbatim>\<open>TypeError\<close> with the name of its type). The two nested loops return
  \<^verbatim>\<open>True\<close> at the first comparison that holds: \<open>spec_satisfied\<close> is the inner loop
  over \<^verbatim>\<open>self.specs\<close>, \<open>any_satisfied\<close> the outer loop over \<^verbatim>\<open>againstspecs\<close>.
\<close>

datatype against = NoAgainst | AgainstStr string | AgainstReq Requirement | AgainstOther string

fun spec_satisfied :: "string \<Rightarrow> (string \<times> string) list \<Rightarrow> bool" where
  "spec_satisfied againstver [] = False"
| "spec_satisfied againstver ((opr, ver) # rest) =
     (if compare_versions againstver opr ver then True else spec_satisfied againstver rest)"

fun any_satisfied :: "(string \<times> string) list \<Rightarrow> (string \<times> string) list \<Rightarrow> bool" where
  "any_satisfied [] sp = False"
| "any_satisfied ((uu, againstver) # rest) sp =
     (if spec_satisfied againstver sp then True else any_satisfied rest sp)"

definition satisfied ::
  "parser \<Rightarrow> packages \<Rightarrow> RequirementPlus \<Rightarrow> against \<Rightarrow> (error + bool) \<times> RequirementPlus" where
  "satisfied parse PKGS self agnst =
     (case (case agnst of
              NoAgainst \<Rightarrow>
                (case installed_version parse PKGS self of
                   (Inl e, self') \<Rightarrow> (Inl e, self')
                 | (Inr None, self') \<Rightarrow> (Inr NoAgainst, self')
                 | (Inr (Some r), self') \<Rightarrow> (Inr (AgainstReq r), self'))
            | other \<Rightarrow> (Inr other, self)) of
        (Inl e, self') \<Rightarrow> (Inl e, self')
      | (Inr NoAgainst, self') \<Rightarrow> (Inr False, self')
      | (Inr (AgainstStr s), self') \<Rightarrow> (Inr (any_satisfied [([], s)] (specs self')), self')
      | (Inr (AgainstReq r), self') \<Rightarrow> (Inr (any_satisfied (specs r) (specs self')), self')
      | (Inr (AgainstOther t), self') \<Rightarrow>
          (Inl (TypeError (''Expecting version str or Requirement/RequirementPlus, got: '' @ t)), self'))"

subsection \<open>Loading a file\<close>

text \<open>
  \<^verbatim>\<open>from_lines\<close> (lines 869-873):
  \<^verbatim>\<open>cls(RequirementPlus.parse(l) for l in sorted(lines))\<close>. The generator parses the
  lines of the sorted list one after the other; the first exception ends the load.
\<close>

fun parse_all :: "parser \<Rightarrow> string list \<Rightarrow> error + RequirementPlus list" where
  "parse_all parse [] = Inr []"
| "parse_all parse (l # ls) =
     (case RequirementPlus_parse parse l of
        Inl e \<Rightarrow> Inl e
      | Inr r \<Rightarrow> (case parse_all parse ls of Inl e \<Rightarrow> Inl e | Inr rs \<Rightarrow> Inr (r # rs)))"

definition from_lines :: "parser \<Rightarrow> string list \<Rightarrow> error + RequirementPlus list" where
  "from_lines parse lines = parse_all parse (sort lines)"

text \<open>
  The file system: a map from paths to file contents, with what has been printed to
  \<^verbatim>\<open>stderr\<close>. A file opened with \<^verbatim>\<open>open(filename, 'r')\<close> is read with
  universal newlines: a carriage return followed by a line feed, and a carriage return
  alone, each end a line and arrive as one line feed. \<^verbatim>\<open>f.readlines()\<close> cuts the
  text so read after each line feed and keeps the line feed on the line.
\<close>

record world =
  files :: "string \<rightharpoonup> string"
  stderr :: "string list"

fun universal_newlines :: "string \<Rightarrow> string" where
  "universal_newlines [] = []"
| "universal_newlines [c] = (if c = CHR 0x0D then [CHR 0x0A] else [c])"
| "universal_newlines (c # d # cs) =
     (if c = CHR 0x0D \<and> d = CHR 0x0A then CHR 0x0A # universal_newlines cs
      else if c = CHR 0x0D then CHR 0x0A # universal_newlines (d # cs)
      else c # universal_newlines (d # cs))"

fun readlines :: "string \<Rightarrow> string list" where
  "readlines [] = []"
| "readlines (c # cs) =
     (if c = CHR 0x0A then [c] # readlines cs
      else (case readlines cs of [] \<Rightarrow> [[c]] | l # ls \<Rightarrow> (c # l) # ls))"

subsection \<open>Faults of the file system\<close>

text \<open>
  Every operation on the file system can fail with an \<^verbatim>\<open>EnvironmentError\<close>. Which
  ones do is given by a record of faults: whether the copy, the \<^verbatim>\<open>open\<close>, the
  \<^verbatim>\<open>close\<close> and the removal fail, and for the \<open>k\<close>-th call of \<^verbatim>\<open>f.write\<close>
  whether it raises after \<open>n\<close> characters have reached the file (\<open>Some n\<close>) or
  writes everything (\<open>None\<close>). \<^verbatim>\<open>open(filename, 'w')\<close> creates the file or
  truncates it; a file object is identified with the path it was opened on.
\<close>

record faults =
  copy_fails :: bool
  open_fails :: bool
  write_fails :: "nat \<Rightarrow> nat option"
  close_fails :: bool
  remove_fails :: bool

definition path_exists :: "world \<Rightarrow> string \<Rightarrow> bool" where
  "path_exists w p = (files w p \<noteq> None)"

definition copy2 :: "faults \<Rightarrow> string \<Rightarrow> string \<Rightarrow> world \<Rightarrow> (error + unit) \<times> world" where
  "copy2 flt src dst w =
     (case files w src of
        None \<Rightarrow> (Inl (EnvironmentError src), w)
      | Some content \<Rightarrow>
          if copy_fails flt then (Inl (EnvironmentError src), w)
          else (Inr (), w\<lparr>files := (files w)(dst \<mapsto> content)\<rparr>))"

definition open_w :: "faults \<Rightarrow> string \<Rightarrow> world \<Rightarrow> (error + string) \<times> world" where
  "open_w flt p w =
     (if open_fails flt then (Inl (EnvironmentError p), w)
      else (Inr p, w\<lparr>files := (files w)(p \<mapsto> [])\<rparr>))"

definition file_write ::
  "faults \<Rightarrow> nat \<Rightarrow> string \<Rightarrow> string \<Rightarrow> world \<Rightarrow> (error + unit) \<times> world" where
  "file_write flt k h data w =
     (let old = (case files w h of None \<Rightarrow> [] | Some content \<Rightarrow> content) in
      case write_fails flt k of
        None \<Rightarrow> (Inr (), w\<lparr>files := (files w)(h \<mapsto> old @ data)\<rparr>)
      | Some n \<Rightarrow> (Inl (EnvironmentError h), w\<lparr>files := (files w)(h \<mapsto> old @ take n data)\<rparr>))"

definition file_close :: "faults \<Rightarrow> string \<Rightarrow> world \<Rightarrow> (error + unit) \<times> world" where
  "file_close flt h w = (if close_fails flt then (Inl (EnvironmentError h), w) else (Inr (), w))"

definition os_remove :: "faults \<Rightarrow> string \<Rightarrow> world \<Rightarrow> (error + unit) \<times> world" where
  "os_remove flt p w =
     (if remove_fails flt \<or> files w p = None then (Inl (EnvironmentError p), w)
      else (Inr (), w\<lparr>files := (files w)(p := None)\<rparr>))"

definition print_err :: "string \<Rightarrow> world \<Rightarrow> world" where
  "print_err msg w = w\<lparr>stderr := stderr w @ [msg]\<rparr>"

text \<open>
  \<^verbatim>\<open>from_file\<close> (lines 859-867): \<^verbatim>\<open>open(filename, 'r')\<close> fails when there is no
  such file (or when the environment refuses it); else the lines of the file, read with
  universal newlines, go to \<^verbatim>\<open>from_lines\<close>.
\<close>

definition from_file ::
  "faults \<Rightarrow> parser \<Rightarrow> string \<Rightarrow> world \<Rightarrow> error + RequirementPlus list" where
  "from_file flt parse fname w =
     (case files w fname of
        None \<Rightarrow> Inl (EnvironmentError fname)
      | Some content \<Rightarrow>
          if open_fails flt then Inl (EnvironmentError fname)
          else from_lines parse (readlines (universal_newlines content)))"

subsection \<open>Writing with a backup\<close>

text \<open>
  \<^verbatim>\<open>SafeWriter\<close> (lines 920-985). \<^verbatim>\<open>__init__\<close> sets the attributes
  \<^verbatim>\<open>filename\<close>, \<^verbatim>\<open>mode\<close>, \<^verbatim>\<open>f\<close> (here \<open>fh\<close>) and \<^verbatim>\<open>backup\<close>.
  Reading an attribute by name gives its value, or a method of the class, or raises
  \<^verbatim>\<open>AttributeError\<close> when the object has no attribute of that name.
\<close>

record SafeWriter =
  filename :: string
  mode :: string
  fh :: "string option"
  backup :: "string option"

datatype pyval = PNone | PStr string | PFile string | PMethod string

definition SafeWriter_init :: "string \<Rightarrow> string \<Rightarrow> SafeWriter" where
  "SafeWriter_init fname md = \<lparr>filename = fname, mode = md, fh = None, backup = None\<rparr>"

definition SafeWriter_getattr :: "SafeWriter \<Rightarrow> string \<Rightarrow> error + pyval" where
  "SafeWriter_getattr self attr =
     (if attr = ''filename'' then Inr (PStr (filename self))
      else if attr = ''mode'' then Inr (PStr (mode self))
      else if attr = ''f'' then Inr (case fh self of None \<Rightarrow> PNone | Some h \<Rightarrow> PFile h)
      else if attr = ''backup'' then Inr (case backup self of None \<Rightarrow> PNone | Some b \<Rightarrow> PStr b)
      else if attr \<in> set [''__init__'', ''__enter__'', ''__exit__'', ''file_backup'', ''file_backup_remove'']
        then Inr (PMethod attr)
      else Inl (AttributeError attr))"

text \<open>
  \<^verbatim>\<open>file_backup\<close> (lines 948-966): nothing to do when the file does not exist;
  else \<^verbatim>\<open>shutil.copy2(self.filename, backupfile)\<close>, whose
  \<^verbatim>\<open>EnvironmentError\<close> becomes a \<^verbatim>\<open>FatalError\<close>, and \<^verbatim>\<open>self.backup\<close> is set.
\<close>

definition file_backup ::
  "faults \<Rightarrow> SafeWriter \<Rightarrow> world \<Rightarrow> (error + unit) \<times> SafeWriter \<times> world" where
  "file_backup flt self w =
     (if \<not> path_exists w (filename self) then (Inr (), self, w)
      else
        (let backupfile = filename self @ ''.bak'' in
         case copy2 flt (filename self) backupfile w of
           (Inl ex, w') \<Rightarrow> (Inl (FatalError ''Failed to backup''), self, w')
         | (Inr u, w') \<Rightarrow> (Inr (), self\<lparr>backup := Some backupfile\<rparr>, w')))"

text \<open>
  \<^verbatim>\<open>file_backup_remove\<close> (lines 968-985). When there is no backup file the source
  evaluates \<^verbatim>\<open>self.backed_up\<close> (for a debug message) before it returns.
\<close>

definition file_backup_remove ::
  "faults \<Rightarrow> SafeWriter \<Rightarrow> world \<Rightarrow> (error + unit) \<times> world" where
  "file_backup_remove flt self w =
     (let backupfile = filename self @ ''.bak'' in
      if \<not> path_exists w backupfile then
        (case SafeWriter_getattr self ''backed_up'' of
           Inl ex \<Rightarrow> (Inl ex, w)
         | Inr v \<Rightarrow> (Inr (), w))
      else
        (case os_remove flt backupfile w of
           (Inl ex, w') \<Rightarrow> (Inl (FatalError ''Failed to remove backup file''), w')
         | (Inr u, w') \<Rightarrow> (Inr (), w')))"

text \<open>
  \<^verbatim>\<open>__enter__\<close> (lines 929-934) and \<^verbatim>\<open>__exit__\<close> (lines 936-946). \<open>extype\<close>
  is the exception of the body, if it raised one; \<^verbatim>\<open>__exit__\<close> returns
  \<^verbatim>\<open>False\<close> on each path, so the exception is not suppressed.
\<close>

definition SafeWriter_enter ::
  "faults \<Rightarrow> SafeWriter \<Rightarrow> world \<Rightarrow> (error + string) \<times> SafeWriter \<times> world" where
  "SafeWriter_enter flt self w =
     (case file_backup flt self w of
        (Inl ex, self', w') \<Rightarrow> (Inl ex, self', w')
      | (Inr u, self', w') \<Rightarrow>
          (case open_w flt (filename self') w' of
             (Inl ex, w'') \<Rightarrow> (Inl ex, self', w'')
           | (Inr h, w'') \<Rightarrow> (Inr h, self'\<lparr>fh := Some h\<rparr>, w'')))"

definition SafeWriter_exit ::
  "faults \<Rightarrow> SafeWriter \<Rightarrow> error option \<Rightarrow> world \<Rightarrow> (error + bool) \<times> world" where
  "SafeWriter_exit flt self extype w =
     (case fh self of
        None \<Rightarrow> (Inl (AttributeError ''close''), w)
      | Some h \<Rightarrow>
          (case file_close flt h w of
             (Inl ex, w') \<Rightarrow> (Inl ex, w')
           | (Inr u, w') \<Rightarrow>
               (case extype of
                  None \<Rightarrow>
                    (case file_backup_remove flt self w' of
                       (Inl ex, w'') \<Rightarrow> (Inl ex, w'')
                     | (Inr u', w'') \<Rightarrow> (Inr False, w''))
                | Some ex \<Rightarrow>
                    (case backup self of
                       Some b \<Rightarrow>
                         (if b \<noteq> [] then (Inr False, print_err (''A backup file was saved: '' @ b) w')
                          else (Inr False, print_err ''No backup was saved!'' w'))
                     | None \<Rightarrow> (Inr False, print_err ''No backup was saved!'' w')))))"

text \<open>
  \<^verbatim>\<open>Requirementz.write\<close> (lines 909-917). \<open>write_lines\<close> is the body of the
  \<^verbatim>\<open>with\<close> statement, two calls of \<^verbatim>\<open>f.write\<close>. The argument of the first,
  \<open>file_text\<close>, is evaluated before the call: the list is sorted, then
  \<^verbatim>\<open>str(r)\<close> is taken of each requirement in turn (\<open>str_all\<close>), and the strings
  are joined by line feeds; an exception there is an exception of the body before anything
  is written. The \<^verbatim>\<open>with\<close> statement
  calls \<^verbatim>\<open>__enter__\<close> (an exception there leaves the statement without a call of
  \<^verbatim>\<open>__exit__\<close>), runs the body, and calls \<^verbatim>\<open>__exit__\<close> with the exception of
  the body or with \<^verbatim>\<open>None\<close>; an exception of \<^verbatim>\<open>__exit__\<close> replaces the one of the
  body.
\<close>

fun str_all :: "RequirementPlus list \<Rightarrow> error + string list" where
  "str_all [] = Inr []"
| "str_all (r # rs) =
     (case RequirementPlus_str r of
        Inl ex \<Rightarrow> Inl ex
      | Inr s \<Rightarrow> (case str_all rs of Inl ex \<Rightarrow> Inl ex | Inr ss \<Rightarrow> Inr (s # ss)))"

definition file_text :: "RequirementPlus list \<Rightarrow> error + string" where
  "file_text self =
     (case sorted_by_name self of
        Inl ex \<Rightarrow> Inl ex
      | Inr rs \<Rightarrow>
          (case str_all rs of
             Inl ex \<Rightarrow> Inl ex
           | Inr ss \<Rightarrow> Inr (str_join [CHR 0x0A] ss)))"

definition write_lines ::
  "faults \<Rightarrow> RequirementPlus list \<Rightarrow> string \<Rightarrow> world \<Rightarrow> (error + unit) \<times> world" where
  "write_lines flt self h w =
     (case file_text self of
        Inl ex \<Rightarrow> (Inl ex, w)
      | Inr text \<Rightarrow>
          (case file_write flt 0 h text w of
             (Inl ex, w') \<Rightarrow> (Inl ex, w')
           | (Inr u, w') \<Rightarrow> file_write flt 1 h [CHR 0x0A] w'))"

definition Requirementz_write ::
  "faults \<Rightarrow> RequirementPlus list \<Rightarrow> string \<Rightarrow> world \<Rightarrow> (error + unit) \<times> world" where
  "Requirementz_write flt self fname w =
     (case SafeWriter_enter flt (SafeWriter_init fname ''w'') w of
        (Inl ex, sw, w1) \<Rightarrow> (Inl ex, w1)
      | (Inr h, sw, w1) \<Rightarrow>
          (case write_lines flt self h w1 of
             (Inl ex, w2) \<Rightarrow>
               (case SafeWriter_exit flt sw (Some ex) w2 of
                  (Inl ex', w3) \<Rightarrow> (Inl ex', w3)
                | (Inr suppress, w3) \<Rightarrow> (if suppress then (Inr (), w3) else (Inl ex, w3)))
           | (Inr u, w2) \<Rightarrow>
               (case SafeWriter_exit flt sw None w2 of
                  (Inl ex', w3) \<Rightarrow> (Inl ex', w3)
                | (Inr suppress, w3) \<Rightarrow> (Inr (), w3))))"

text \<open>
  What the two calls of \<^verbatim>\<open>f.write\<close> put into the file when both succeed: the text
  of the first call and a final line feed.
\<close>

definition file_data :: "RequirementPlus list \<Rightarrow> error + string" where
  "file_data self =
     (case file_text self of
        Inl ex \<Rightarrow> Inl ex
      | Inr text \<Rightarrow> Inr (text @ [CHR 0x0A]))"

subsection \<open>Values for the examples\<close>

text \<open>
  A run in which no operation on the file system fails, and a requirement of the
  registry kind with a name and specs (as a line \<^verbatim>\<open>name op ver, ...\<close> gives).
\<close>

definition no_faults :: faults where
  "no_faults = \<lparr>copy_fails = False, open_fails = False, write_fails = (\<lambda>k. None),
                 close_fails = False, remove_fails = False\<rparr>"

definition registry_requirement :: "string \<Rightarrow> (string \<times> string) list \<Rightarrow> Requirement" where
  "registry_requirement n sp =
     \<lparr>name = Some n, extras = [], specs = sp, local_file = False, vcs = None,
      path = [], uri = [], revision = None\<rparr>"

text \<open>
  A requirement of a local path, as the line \<^verbatim>\<open>-e ./mypkg\<close> gives: it has a path and
  no name.
\<close>

definition local_requirement :: "string \<Rightarrow> Requirement" where
  "local_requirement p =
     \<lparr>name = None, extras = [], specs = [], local_file = True, vcs = None,
      path = p, uri = [], revision = None\<rparr>"

definition local_plus :: "string \<Rightarrow> RequirementPlus" where
  "local_plus p = Requirement.extend (local_requirement p) (RequirementPlus.fields None)"

definition registry_plus :: "string \<Rightarrow> (string \<times> string) list \<Rightarrow> RequirementPlus" where
  "registry_plus n sp = Requirement.extend (registry_requirement n sp) (RequirementPlus.fields None)"

section \<open>Properties\<close>

subsection \<open>The comparator\<close>

lemma OP_FUNCS_ge:
  "OP_FUNCS ''>='' = Some (\<lambda>v1 v2. version_le (parse_version v2) (parse_version v1))"
  by (simp add: OP_FUNCS_def)

lemma OP_FUNCS_unknown:
  assumes "opr \<noteq> ''==''" "opr \<noteq> ''>=''" "opr \<noteq> ''<=''" "opr \<noteq> ''>''" "opr \<noteq> ''<''"
  shows "OP_FUNCS opr = None"
  using assms by (simp add: OP_FUNCS_def)

lemma parse_version_1_0_1: "parse_version ''1.0.1'' = [1, 0, 1]"
  by (simp add: parse_version_def is_digit_def int_of_digits_def digit_val_def)

lemma parse_version_1_0_0: "parse_version ''1.0.0'' = [1, 0, 0]"
  by (simp add: parse_version_def is_digit_def int_of_digits_def digit_val_def)

lemma parse_version_2_0_0: "parse_version ''2.0.0'' = [2, 0, 0]"
  by (simp add: parse_version_def is_digit_def int_of_digits_def digit_val_def)

lemma parse_version_1_0: "parse_version ''1.0'' = [1, 0]"
  by (simp add: parse_version_def is_digit_def int_of_digits_def digit_val_def)

text \<open>
  C4. The truth table of the comparator: \<^verbatim>\<open>compare_versions('1.0.1', '>=', '1.0.0')\<close>
  is true, \<^verbatim>\<open>compare_versions('2.0.0', '<=', '1.0.0')\<close> is false, and
  \<^verbatim>\<open>compare_versions('1.0', '==', '1.0.0')\<close> is true: the shorter tuple \<open>(1, 0)\<close> is
  padded with a zero and equals \<open>(1, 0, 0)\<close>.
\<close>

theorem compare_versions_truth_table:
  "compare_versions ''1.0.1'' ''>='' ''1.0.0'' = True
   \<and> compare_versions ''2.0.0'' ''<='' ''1.0.0'' = False
   \<and> compare_versions ''1.0'' ''=='' ''1.0.0'' = True"
  by (simp add: compare_versions_def dict_get_def OP_FUNCS_def
      parse_version_1_0_1 parse_version_1_0_0 parse_version_2_0_0 parse_version_1_0
      version_eq_def version_le_def pad_to_def)

text \<open>
  C5. An operator that is none of \<open>==\<close>, \<open>>=\<close>, \<open><=\<close>, \<open>>\<close>, \<open><\<close> is not a key of
  \<^verbatim>\<open>OP_FUNCS\<close>, so \<^verbatim>\<open>get\<close> returns the default, the function of \<open>>=\<close>:
  the comparison is the one \<open>>=\<close> makes, and nothing is raised.
\<close>

theorem compare_versions_unknown_operator:
  assumes "opr \<notin> {''=='', ''>='', ''<='', ''>'', ''<''}"
  shows "compare_versions ver1 opr ver2 = compare_versions ver1 ''>='' ver2"
proof -
  have none: "OP_FUNCS opr = None"
    using assms by (intro OP_FUNCS_unknown) auto
  show ?thesis
    by (simp add: compare_versions_def dict_get_def none OP_FUNCS_ge)
qed

theorem compare_versions_unknown_operator_witness:
  "''!='' \<notin> {''=='', ''>='', ''<='', ''>'', ''<''}
   \<and> compare_versions ''1.0.1'' ''!='' ''1.0.0'' = compare_versions ''1.0.1'' ''>='' ''1.0.0''
   \<and> compare_versions ''1.0.1'' ''!='' ''1.0.0'' = True"
proof -
  have h: "''!='' \<notin> {''=='', ''>='', ''<='', ''>'', ''<''}" by simp
  have ge: "compare_versions ''1.0.1'' ''>='' ''1.0.0'' = True"
    by (simp add: compare_versions_def dict_get_def OP_FUNCS_def
        parse_version_1_0_1 parse_version_1_0_0 version_le_def pad_to_def)
  show ?thesis
    using h compare_versions_unknown_operator [OF h, of "''1.0.1''" "''1.0.0''"] ge by simp
qed

subsection \<open>Evaluating the examples\<close>

lemmas example_defs =
  registry_plus_def registry_requirement_def local_plus_def local_requirement_def
  Requirement.extend_def RequirementPlus.fields_def Requirement.truncate_def

lemmas writer_defs =
  Requirementz_write_def SafeWriter_enter_def SafeWriter_exit_def SafeWriter_init_def
  SafeWriter_getattr_def file_backup_def file_backup_remove_def write_lines_def
  path_exists_def copy2_def open_w_def file_write_def file_close_def os_remove_def
  print_err_def no_faults_def Let_def

lemma name_registry_plus: "name (registry_plus n sp) = Some n"
  by (simp add: example_defs)

lemma specs_registry_plus: "specs (registry_plus n sp) = sp"
  by (simp add: example_defs)

lemma name_lower_registry_plus: "name_lower (registry_plus n sp) = Inr (lower n)"
  by (simp add: name_lower_def name_registry_plus)

lemma name_local_plus: "name (local_plus p) = None"
  by (simp add: example_defs)

lemma parse_const:
  "RequirementPlus_parse (\<lambda>l. Inr (registry_requirement n sp)) line = Inr (registry_plus n sp)"
  by (simp add: RequirementPlus_parse_def registry_plus_def)

lemma parse_const_local:
  "RequirementPlus_parse (\<lambda>l. Inr (local_requirement p)) line = Inr (local_plus p)"
  by (simp add: RequirementPlus_parse_def local_plus_def)

lemma lower_Foo: "lower ''Foo'' = ''foo''"
  by code_simp

lemma lower_FOO: "lower ''FOO'' = ''foo''"
  by code_simp

lemma lower_foo: "lower ''foo'' = ''foo''"
  by code_simp

lemma lower_bar: "lower ''bar'' = ''bar''"
  by code_simp

lemma lower_baz: "lower ''baz'' = ''baz''"
  by code_simp

lemma str_registry_plus:
  "RequirementPlus_str (registry_plus n sp)
   = Inr (n @ '' '' @ str_join '','' (map (\<lambda>(opr, ver). opr @ '' '' @ ver) sp))"
  by (simp add: RequirementPlus_str_def to_str_def spec_string_def ljust_def example_defs)

lemma str_foo: "RequirementPlus_str (registry_plus ''foo'' [(''=='', ''1.0'')]) = Inr ''foo == 1.0''"
  by (simp add: str_registry_plus)

lemma str_bar: "RequirementPlus_str (registry_plus ''bar'' [(''=='', ''1.0'')]) = Inr ''bar == 1.0''"
  by (simp add: str_registry_plus)

lemma sorted_by_name_single: "sorted_by_name [r] = Inr [r]"
  by (simp add: sorted_by_name_def)

lemma file_text_foo: "file_text [registry_plus ''foo'' [(''=='', ''1.0'')]] = Inr ''foo == 1.0''"
  by (simp add: file_text_def sorted_by_name_single str_foo)

subsection \<open>Adding a line\<close>

lemma add_line_scan_skip:
  assumes "\<forall>x\<in>set pre. \<exists>m. name_lower x = Inr m \<and> m \<noteq> reqname"
  shows "add_line_scan reqname req self i (pre @ rest) =
         add_line_scan reqname req self (i + length pre) rest"
  using assms by (induction pre arbitrary: i) auto

text \<open>
  A requirement without a name is never added: \<^verbatim>\<open>req.name.lower()\<close> raises before
  the list is looked at.
\<close>

lemma add_line_nameless:
  assumes "RequirementPlus_parse parse line = Inr req" and "name req = None"
  shows "add_line parse self line = (Inl (AttributeError ''lower''), self)"
  using assms by (simp add: add_line_def name_lower_def)

text \<open>
  C2, as the code has it. A call of \<^verbatim>\<open>add_line\<close> whose line parses to a requirement
  \<open>req\<close> that has a name, \<open>reqname\<close> in lower case. The existing entry that counts
  is the first entry \<open>e\<close> of the list with that lower-cased name: the list is
  \<open>pre @ e # post\<close> and the entries of \<open>pre\<close> have other names. If the set of its
  specs is the set of the specs of \<open>req\<close>, the call fails with an error (the
  \<^verbatim>\<open>ValueError\<close> "Already a requirement" when the entry has a string) and the list
  is unchanged; if the sets differ, \<open>req\<close> takes the place of \<open>e\<close>, at the index
  of \<open>e\<close>, and the call returns \<^verbatim>\<open>False\<close> (replaced); and if every entry has
  another name, \<open>req\<close> is appended and the call returns \<^verbatim>\<open>True\<close> (added).
\<close>

theorem add_line_cases:
  assumes parsed: "RequirementPlus_parse parse line = Inr req"
      and named: "name_lower req = Inr reqname"
  shows "(self = pre @ e # post
            \<and> (\<forall>x\<in>set pre. \<exists>m. name_lower x = Inr m \<and> m \<noteq> reqname)
            \<and> name_lower e = Inr reqname
            \<and> set (specs req) = set (specs e)
          \<longrightarrow> (\<exists>err. add_line parse self line = (Inl err, self))
              \<and> (\<forall>s. RequirementPlus_str e = Inr s \<longrightarrow>
                    add_line parse self line
                    = (Inl (ValueError (''Already a requirement: '' @ s)), self)))
       \<and> (self = pre @ e # post
            \<and> (\<forall>x\<in>set pre. \<exists>m. name_lower x = Inr m \<and> m \<noteq> reqname)
            \<and> name_lower e = Inr reqname
            \<and> set (specs req) \<noteq> set (specs e)
          \<longrightarrow> add_line parse self line = (Inr False, self[length pre := req])
              \<and> self[length pre := req] = pre @ req # post)
       \<and> ((\<forall>x\<in>set self. \<exists>m. name_lower x = Inr m \<and> m \<noteq> reqname)
          \<longrightarrow> add_line parse self line = (Inr True, self @ [req]))"
proof (intro conjI impI allI)
  assume h: "self = pre @ e # post
            \<and> (\<forall>x\<in>set pre. \<exists>m. name_lower x = Inr m \<and> m \<noteq> reqname)
            \<and> name_lower e = Inr reqname
            \<and> set (specs req) = set (specs e)"
  then have scan: "add_line_scan reqname req self 0 self =
             add_line_scan reqname req self (0 + length pre) (e # post)"
    using add_line_scan_skip [of pre reqname req self 0 "e # post"] by simp
  with h parsed named show "\<exists>err. add_line parse self line = (Inl err, self)"
    by (cases "RequirementPlus_str e") (simp_all add: add_line_def RequirementPlus_eq_def)
  fix s assume "RequirementPlus_str e = Inr s"
  with scan h parsed named
  show "add_line parse self line = (Inl (ValueError (''Already a requirement: '' @ s)), self)"
    by (simp add: add_line_def RequirementPlus_eq_def)
next
  assume h: "self = pre @ e # post
            \<and> (\<forall>x\<in>set pre. \<exists>m. name_lower x = Inr m \<and> m \<noteq> reqname)
            \<and> name_lower e = Inr reqname
            \<and> set (specs req) \<noteq> set (specs e)"
  then have "add_line_scan reqname req self 0 self =
             add_line_scan reqname req self (0 + length pre) (e # post)"
    using add_line_scan_skip [of pre reqname req self 0 "e # post"] by simp
  with h parsed named show "add_line parse self line = (Inr False, self[length pre := req])"
    by (simp add: add_line_def RequirementPlus_eq_def)
  from h show "self[length pre := req] = pre @ req # post" by simp
next
  assume h: "\<forall>x\<in>set self. \<exists>m. name_lower x = Inr m \<and> m \<noteq> reqname"
  then have "add_line_scan reqname req self 0 self =
             add_line_scan reqname req self (0 + length self) []"
    using add_line_scan_skip [of self reqname req self 0 "[]"] by simp
  with parsed named show "add_line parse self line = (Inr True, self @ [req])"
    by (simp add: add_line_def)
qed

text \<open>
  The three cases, with a parser that reads the line \<^verbatim>\<open>Foo == 1.0\<close>: an entry
  \<^verbatim>\<open>foo\<close> with the same set of specs (listed twice), an entry \<^verbatim>\<open>foo >= 2.0\<close> at
  index one (followed by an entry without a name), and no entry of that name.
\<close>

theorem add_line_cases_witness:
  "add_line (\<lambda>l. Inr (registry_requirement ''Foo'' [(''=='', ''1.0'')]))
        [registry_plus ''bar'' [], registry_plus ''foo'' [(''=='', ''1.0''), (''=='', ''1.0'')]]
        ''Foo == 1.0''
      = (Inl (ValueError ''Already a requirement: foo == 1.0,== 1.0''),
         [registry_plus ''bar'' [], registry_plus ''foo'' [(''=='', ''1.0''), (''=='', ''1.0'')]])
   \<and> add_line (\<lambda>l. Inr (registry_requirement ''Foo'' [(''=='', ''1.0'')]))
        [registry_plus ''bar'' [], registry_plus ''foo'' [(''>='', ''2.0'')], local_plus ''./mypkg'']
        ''Foo == 1.0''
      = (Inr False,
         [registry_plus ''bar'' [], registry_plus ''Foo'' [(''=='', ''1.0'')], local_plus ''./mypkg''])
   \<and> add_line (\<lambda>l. Inr (registry_requirement ''Foo'' [(''=='', ''1.0'')]))
        [registry_plus ''bar'' [], registry_plus ''baz'' []] ''Foo == 1.0''
      = (Inr True,
         [registry_plus ''bar'' [], registry_plus ''baz'' [], registry_plus ''Foo'' [(''=='', ''1.0'')]])"
proof -
  let ?P = "\<lambda>l::string. (Inr (registry_requirement ''Foo'' [(''=='', ''1.0'')]) :: error + Requirement)"
  let ?req = "registry_plus ''Foo'' [(''=='', ''1.0'')]"
  have p: "RequirementPlus_parse ?P ''Foo == 1.0'' = Inr ?req"
    by (rule parse_const)
  have n: "name_lower ?req = Inr ''foo''"
    by (simp add: name_lower_registry_plus lower_Foo)
  note simps = name_lower_registry_plus specs_registry_plus lower_Foo lower_foo lower_bar lower_baz
  have c1: "add_line ?P
        [registry_plus ''bar'' [], registry_plus ''foo'' [(''=='', ''1.0''), (''=='', ''1.0'')]]
        ''Foo == 1.0''
      = (Inl (ValueError ''Already a requirement: foo == 1.0,== 1.0''),
         [registry_plus ''bar'' [], registry_plus ''foo'' [(''=='', ''1.0''), (''=='', ''1.0'')]])"
    using add_line_cases [OF p n, of
        "[registry_plus ''bar'' [], registry_plus ''foo'' [(''=='', ''1.0''), (''=='', ''1.0'')]]"
        "[registry_plus ''bar'' []]" "registry_plus ''foo'' [(''=='', ''1.0''), (''=='', ''1.0'')]" "[]"]
    by (simp add: simps str_registry_plus)
  have c2: "add_line ?P
        [registry_plus ''bar'' [], registry_plus ''foo'' [(''>='', ''2.0'')], local_plus ''./mypkg'']
        ''Foo == 1.0''
      = (Inr False, [registry_plus ''bar'' [], ?req, local_plus ''./mypkg''])"
    using add_line_cases [OF p n, of
        "[registry_plus ''bar'' [], registry_plus ''foo'' [(''>='', ''2.0'')], local_plus ''./mypkg'']"
        "[registry_plus ''bar'' []]" "registry_plus ''foo'' [(''>='', ''2.0'')]"
        "[local_plus ''./mypkg'']"]
    by (simp add: simps)
  have c3: "add_line ?P [registry_plus ''bar'' [], registry_plus ''baz'' []] ''Foo == 1.0''
      = (Inr True, [registry_plus ''bar'' [], registry_plus ''baz'' [], ?req])"
    using add_line_cases [OF p n, of "[registry_plus ''bar'' [], registry_plus ''baz'' []]"]
    by (simp add: simps)
  from c1 c2 c3 show ?thesis by blast
qed

text \<open>
  C2 as stated fails. The list holds \<^verbatim>\<open>foo >= 2.0\<close> and then \<^verbatim>\<open>FOO == 1.0\<close>; the
  line is \<^verbatim>\<open>Foo == 1.0\<close>. An entry with the same name and the same set of specs
  exists, yet the call does not fail: it replaces the first entry of that name and returns
  \<^verbatim>\<open>False\<close>. And a line that parses to a requirement without a name (a local path)
  is not appended to the empty list: the call raises \<^verbatim>\<open>AttributeError\<close>.
\<close>

theorem add_line_later_duplicate_and_nameless:
  "add_line (\<lambda>l. Inr (registry_requirement ''Foo'' [(''=='', ''1.0'')]))
        [registry_plus ''foo'' [(''>='', ''2.0'')], registry_plus ''FOO'' [(''=='', ''1.0'')]]
        ''Foo == 1.0''
      = (Inr False,
         [registry_plus ''Foo'' [(''=='', ''1.0'')], registry_plus ''FOO'' [(''=='', ''1.0'')]])
   \<and> name_lower (registry_plus ''FOO'' [(''=='', ''1.0'')])
       = name_lower (registry_plus ''Foo'' [(''=='', ''1.0'')])
   \<and> set (specs (registry_plus ''FOO'' [(''=='', ''1.0'')]))
       = set (specs (registry_plus ''Foo'' [(''=='', ''1.0'')]))
   \<and> add_line (\<lambda>l. Inr (local_requirement ''./mypkg'')) [] ''-e ./mypkg''
      = (Inl (AttributeError ''lower''), [])"
proof -
  have a: "add_line (\<lambda>l. Inr (registry_requirement ''Foo'' [(''=='', ''1.0'')]))
        [registry_plus ''foo'' [(''>='', ''2.0'')], registry_plus ''FOO'' [(''=='', ''1.0'')]]
        ''Foo == 1.0''
      = (Inr False,
         [registry_plus ''Foo'' [(''=='', ''1.0'')], registry_plus ''FOO'' [(''=='', ''1.0'')]])"
    by (simp add: add_line_def parse_const name_lower_registry_plus specs_registry_plus
        lower_Foo lower_foo RequirementPlus_eq_def)
  have b: "name_lower (registry_plus ''FOO'' [(''=='', ''1.0'')])
       = name_lower (registry_plus ''Foo'' [(''=='', ''1.0'')])"
    by (simp add: name_lower_registry_plus lower_Foo lower_FOO)
  have c: "set (specs (registry_plus ''FOO'' [(''=='', ''1.0'')]))
       = set (specs (registry_plus ''Foo'' [(''=='', ''1.0'')]))"
    by (simp add: specs_registry_plus)
  have d: "add_line (\<lambda>l. Inr (local_requirement ''./mypkg'')) [] ''-e ./mypkg''
      = (Inl (AttributeError ''lower''), [])"
    by (simp add: add_line_def parse_const_local name_lower_def name_local_plus)
  from a b c d show ?thesis by blast
qed

subsection \<open>Satisfaction\<close>

lemma spec_satisfied_iff:
  "spec_satisfied v sp = (\<exists>(opr, ver) \<in> set sp. compare_versions v opr ver)"
  by (induction sp) auto

lemma installed_version_specs:
  "installed_version parse PKGS self = (r, self') \<Longrightarrow> specs self' = specs self"
  by (auto simp: installed_version_def Let_def split: option.splits sum.splits)

text \<open>
  C3. A requirement whose package is installed: \<^verbatim>\<open>installed_version\<close> returns the
  requirement \<open>q\<close> of the installed version, whose one spec carries the installed
  version string. Then \<^verbatim>\<open>satisfied()\<close> returns \<^verbatim>\<open>True\<close> if and only if at least
  one (operator, version) pair of the specs of the requirement compares true against the
  installed version: any of them, not all of them.
\<close>

theorem satisfied_any_of:
  assumes inst: "installed_version parse PKGS self = (Inr (Some q), self')"
      and one: "specs q = [(opq, installed)]"
  shows "fst (satisfied parse PKGS self NoAgainst)
         = Inr (\<exists>(opr, ver) \<in> set (specs self). compare_versions installed opr ver)"
  using installed_version_specs [OF inst]
  by (simp add: satisfied_def inst one spec_satisfied_iff)

text \<open>
  \<^verbatim>\<open>foo >= 1.0, <= 2.0\<close> with \<^verbatim>\<open>Foo 3.0\<close> installed: the first pair holds, the
  second does not, and the requirement is satisfied.
\<close>

theorem satisfied_any_of_witness:
  "installed_version
       (\<lambda>l. if l = ''Foo == 3.0'' then Inr (registry_requirement ''Foo'' [(''=='', ''3.0'')])
             else Inl (ValueError l))
       [''foo'' \<mapsto> \<lparr>project_name = ''Foo'', base_version = ''3.0'', location = ''/usr/lib''\<rparr>]
       (registry_plus ''foo'' [(''>='', ''1.0''), (''<='', ''2.0'')])
     = (Inr (Some (registry_requirement ''Foo'' [(''=='', ''3.0'')])),
        (registry_plus ''foo'' [(''>='', ''1.0''), (''<='', ''2.0'')])
          \<lparr>installed_ver := Some (registry_requirement ''Foo'' [(''=='', ''3.0'')])\<rparr>)
   \<and> specs (registry_requirement ''Foo'' [(''=='', ''3.0'')]) = [(''=='', ''3.0'')]
   \<and> fst (satisfied
       (\<lambda>l. if l = ''Foo == 3.0'' then Inr (registry_requirement ''Foo'' [(''=='', ''3.0'')])
             else Inl (ValueError l))
       [''foo'' \<mapsto> \<lparr>project_name = ''Foo'', base_version = ''3.0'', location = ''/usr/lib''\<rparr>]
       (registry_plus ''foo'' [(''>='', ''1.0''), (''<='', ''2.0'')]) NoAgainst) = Inr True
   \<and> compare_versions ''3.0'' ''>='' ''1.0'' \<and> \<not> compare_versions ''3.0'' ''<='' ''2.0''"
proof -
  let ?P = "\<lambda>l. if l = ''Foo == 3.0'' then Inr (registry_requirement ''Foo'' [(''=='', ''3.0'')])
             else (Inl (ValueError l) :: error + Requirement)"
  let ?PK = "[''foo'' \<mapsto> \<lparr>project_name = ''Foo'', base_version = ''3.0'', location = ''/usr/lib''\<rparr>]"
  let ?r = "registry_plus ''foo'' [(''>='', ''1.0''), (''<='', ''2.0'')]"
  let ?q = "registry_requirement ''Foo'' [(''=='', ''3.0'')]"
  have h1: "installed_version ?P ?PK ?r = (Inr (Some ?q), ?r\<lparr>installed_ver := Some ?q\<rparr>)"
    by (simp add: installed_version_def name_lower_def lower_foo RequirementPlus_parse_def
        Let_def example_defs)
  have h2: "specs ?q = [(''=='', ''3.0'')]" by (simp add: registry_requirement_def)
  have pv3: "parse_version ''3.0'' = [3, 0]"
    by (simp add: parse_version_def is_digit_def int_of_digits_def digit_val_def)
  have pv2: "parse_version ''2.0'' = [2, 0]"
    by (simp add: parse_version_def is_digit_def int_of_digits_def digit_val_def)
  have c1: "compare_versions ''3.0'' ''>='' ''1.0''"
    by (simp add: compare_versions_def dict_get_def OP_FUNCS_def pv3 parse_version_1_0
        version_le_def pad_to_def)
  have c2: "\<not> compare_versions ''3.0'' ''<='' ''2.0''"
    by (simp add: compare_versions_def dict_get_def OP_FUNCS_def pv3 pv2 version_le_def pad_to_def)
  from satisfied_any_of [OF h1 h2] h1 h2 c1 c2 show ?thesis
    by (simp add: specs_registry_plus)
qed

subsection \<open>Equality and hash\<close>

text \<open>
  C10. There are two requirements with different names and the same set of specs that
  \<^verbatim>\<open>__eq__\<close> makes equal and whose strings differ. The hash of each is the hash of its
  string, so for every hash of strings the two hashes are equal exactly when the hashes of
  the two different strings are, and there is a hash of strings under which they differ:
  equal requirements are not guaranteed equal hashes.
\<close>

theorem equal_requirements_unequal_hashes:
  "\<exists>a b. name a \<noteq> name b \<and> set (specs a) = set (specs b) \<and> RequirementPlus_eq a b
     \<and> (\<exists>sa sb. RequirementPlus_str a = Inr sa \<and> RequirementPlus_str b = Inr sb \<and> sa \<noteq> sb
           \<and> (\<forall>str_hash. RequirementPlus_hash str_hash a = Inr (str_hash sa)
                        \<and> RequirementPlus_hash str_hash b = Inr (str_hash sb)))
     \<and> RequirementPlus_str a \<noteq> RequirementPlus_str b
     \<and> (\<exists>str_hash. RequirementPlus_hash str_hash a \<noteq> RequirementPlus_hash str_hash b)"
proof -
  let ?a = "registry_plus ''foo'' [(''=='', ''1.0'')]"
  let ?b = "registry_plus ''bar'' [(''=='', ''1.0'')]"
  let ?h = "\<lambda>s. if s = ''foo == 1.0'' then (0::int) else 1"
  have 1: "name ?a \<noteq> name ?b" by (simp add: name_registry_plus)
  have 2: "set (specs ?a) = set (specs ?b)" by (simp add: specs_registry_plus)
  have 3: "RequirementPlus_eq ?a ?b" using 2 by (simp add: RequirementPlus_eq_def)
  have 4: "RequirementPlus_str ?a \<noteq> RequirementPlus_str ?b" by (simp add: str_foo str_bar)
  have 5: "\<exists>sa sb. RequirementPlus_str ?a = Inr sa \<and> RequirementPlus_str ?b = Inr sb \<and> sa \<noteq> sb
           \<and> (\<forall>str_hash. RequirementPlus_hash str_hash ?a = Inr (str_hash sa)
                        \<and> RequirementPlus_hash str_hash ?b = Inr (str_hash sb))"
    by (simp add: RequirementPlus_hash_def str_foo str_bar)
  have 6: "RequirementPlus_hash ?h ?a \<noteq> RequirementPlus_hash ?h ?b"
    by (simp add: RequirementPlus_hash_def str_foo str_bar)
  from 1 2 3 4 5 6 show ?thesis by blast
qed

subsection \<open>The order of the written file\<close>

text \<open>
  \<^verbatim>\<open>__lt__\<close> requires the name to be smaller before it looks at the specs, so it never
  holds between two requirements of the same name.
\<close>

lemma RequirementPlus_lt_named:
  "name a = Some x \<Longrightarrow> name b = Some y \<Longrightarrow>
   RequirementPlus_lt a b = Inr (x < y \<and> specs a < specs b)"
  by (simp add: RequirementPlus_lt_def)

lemma RequirementPlus_lt_equal_names:
  "name a = Some x \<Longrightarrow> name b = Some x \<Longrightarrow> RequirementPlus_lt a b = Inr False"
  by (simp add: RequirementPlus_lt_def)

text \<open>
  A list of two or more requirements, one of them without a name, is not sorted: the
  comparison of the keys raises \<^verbatim>\<open>TypeError\<close>.
\<close>

lemma sorted_by_name_nameless:
  "2 \<le> length self \<Longrightarrow> \<exists>r\<in>set self. name r = None \<Longrightarrow>
   \<exists>msg. sorted_by_name self = Inl (TypeError msg)"
  by (auto simp: sorted_by_name_def list_ex_iff)

lemma sorted_Some: "sorted (map Some ns) \<Longrightarrow> sorted ns"
  by (induction ns) auto

lemma all_named_names:
  "\<forall>r\<in>set ys. name r \<noteq> None \<Longrightarrow> \<exists>ns. map name ys = map Some ns"
proof (induction ys)
  case Nil
  then show ?case by simp
next
  case (Cons y ys)
  then obtain ns where "map name ys = map Some ns" by auto
  moreover from Cons.prems obtain n where "name y = Some n" by auto
  ultimately have "map name (y # ys) = map Some (n # ns)" by simp
  then show ?case by blast
qed

text \<open>
  C7, as the code has it. For a collection whose requirements all have a name, the order
  in which \<^verbatim>\<open>write\<close> puts the requirements is a stable sort by name alone: the sort
  returns a list whose names are in ascending order, the list is a rearrangement of the
  collection, and the requirements of one name keep the order they had. The specs take
  no part in it.
\<close>

theorem sorted_by_name_stable:
  assumes named: "\<forall>r\<in>set self. name r \<noteq> None"
  shows "\<exists>ys ns. sorted_by_name self = Inr ys
           \<and> map name ys = map Some ns \<and> sorted ns
           \<and> mset ys = mset self
           \<and> (\<forall>k. filter (\<lambda>r. name r = k) ys = filter (\<lambda>r. name r = k) self)"
proof -
  let ?ys = "sort_key name self"
  from named have res: "sorted_by_name self = Inr ?ys"
    by (auto simp: sorted_by_name_def list_ex_iff)
  from named have "\<forall>r\<in>set ?ys. name r \<noteq> None" by simp
  then obtain ns where ns: "map name ?ys = map Some ns"
    using all_named_names by blast
  have "sorted (map name ?ys)" by simp
  with ns have "sorted ns" by (simp add: sorted_Some)
  moreover have "mset ?ys = mset self" by simp
  moreover have "\<forall>k. filter (\<lambda>r. name r = k) ?ys = filter (\<lambda>r. name r = k) self"
    by (simp add: sort_key_stable)
  ultimately show ?thesis using res ns by blast
qed

text \<open>
  \<^verbatim>\<open>foo >= 2.0\<close>, \<^verbatim>\<open>bar\<close>, \<^verbatim>\<open>foo == 1.0\<close>: \<^verbatim>\<open>bar\<close> comes first and the two
  entries of \<^verbatim>\<open>foo\<close> keep their order.
\<close>

theorem sorted_by_name_stable_witness:
  "map name [registry_plus ''foo'' [(''>='', ''2.0'')], registry_plus ''bar'' [],
             registry_plus ''foo'' [(''=='', ''1.0'')]]
     = [Some ''foo'', Some ''bar'', Some ''foo'']
   \<and> sorted_by_name [registry_plus ''foo'' [(''>='', ''2.0'')], registry_plus ''bar'' [],
                      registry_plus ''foo'' [(''=='', ''1.0'')]]
     = Inr [registry_plus ''bar'' [], registry_plus ''foo'' [(''>='', ''2.0'')],
            registry_plus ''foo'' [(''=='', ''1.0'')]]"
proof -
  let ?self = "[registry_plus ''foo'' [(''>='', ''2.0'')], registry_plus ''bar'' [],
                registry_plus ''foo'' [(''=='', ''1.0'')]]"
  have h: "\<forall>r\<in>set ?self. name r \<noteq> None" by (simp add: name_registry_plus)
  have ev: "sorted_by_name ?self
     = Inr [registry_plus ''bar'' [], registry_plus ''foo'' [(''>='', ''2.0'')],
            registry_plus ''foo'' [(''=='', ''1.0'')]]"
    by (simp add: sorted_by_name_def name_registry_plus)
  have nm: "map name ?self = [Some ''foo'', Some ''bar'', Some ''foo'']"
    by (simp add: name_registry_plus)
  from sorted_by_name_stable [OF h] nm ev show ?thesis by blast
qed

text \<open>
  C7 as stated fails. \<^verbatim>\<open>foo >= 2.0\<close> followed by \<^verbatim>\<open>foo == 1.0\<close> stays in that
  order, although \<open>[(==, 1.0)]\<close> is smaller than \<open>[(>=, 2.0)]\<close>: the result is not
  ordered by name and then by specs. And a collection of a requirement without a name (a
  local path) and a named one is not sorted at all: \<^verbatim>\<open>TypeError\<close> is raised.
\<close>

theorem sorted_by_name_ignores_specs:
  "sorted_by_name [registry_plus ''foo'' [(''>='', ''2.0'')], registry_plus ''foo'' [(''=='', ''1.0'')]]
     = Inr [registry_plus ''foo'' [(''>='', ''2.0'')], registry_plus ''foo'' [(''=='', ''1.0'')]]
   \<and> [(''=='', ''1.0'')] < [(''>='', ''2.0'')]
   \<and> \<not> sorted (map (\<lambda>r. (name r, specs r))
       [registry_plus ''foo'' [(''>='', ''2.0'')], registry_plus ''foo'' [(''=='', ''1.0'')]])
   \<and> sorted_by_name [local_plus ''./mypkg'', registry_plus ''foo'' [(''=='', ''1.0'')]]
     = Inl (TypeError ''< not supported between these instances'')"
  by (simp add: sorted_by_name_def name_registry_plus specs_registry_plus name_local_plus
      less_eq_prod_def)

subsection \<open>Loading a file\<close>

lemma parse_all_result:
  "case parse_all parse ls of
     Inr rs \<Rightarrow> map Inr rs = map (RequirementPlus_parse parse) ls
   | Inl e \<Rightarrow>
       \<exists>pre l post. ls = pre @ l # post
         \<and> (\<forall>x\<in>set pre. \<exists>r. RequirementPlus_parse parse x = Inr r)
         \<and> RequirementPlus_parse parse l = Inl e"
proof (induction ls)
  case Nil
  then show ?case by simp
next
  case (Cons a ls)
  show ?case
  proof (cases "RequirementPlus_parse parse a")
    case (Inl e)
    then have "a # ls = [] @ a # ls \<and> (\<forall>x\<in>set []. \<exists>r. RequirementPlus_parse parse x = Inr r)
        \<and> RequirementPlus_parse parse a = Inl e" by simp
    then have "\<exists>pre l post. a # ls = pre @ l # post
         \<and> (\<forall>x\<in>set pre. \<exists>r. RequirementPlus_parse parse x = Inr r)
         \<and> RequirementPlus_parse parse l = Inl e" by blast
    with Inl show ?thesis by simp
  next
    case (Inr r)
    show ?thesis
    proof (cases "parse_all parse ls")
      case (Inl e)
      with Cons.IH obtain pre l post where
        "ls = pre @ l # post" "\<forall>x\<in>set pre. \<exists>r. RequirementPlus_parse parse x = Inr r"
        "RequirementPlus_parse parse l = Inl e" by auto
      with Inr have "a # ls = (a # pre) @ l # post
        \<and> (\<forall>x\<in>set (a # pre). \<exists>r. RequirementPlus_parse parse x = Inr r)
        \<and> RequirementPlus_parse parse l = Inl e" by simp
      then have "\<exists>pre l post. a # ls = pre @ l # post
         \<and> (\<forall>x\<in>set pre. \<exists>r. RequirementPlus_parse parse x = Inr r)
         \<and> RequirementPlus_parse parse l = Inl e" by blast
      with Inr Inl show ?thesis by simp
    next
      case inr: (Inr rs)
      with Cons.IH Inr show ?thesis by simp
    qed
  qed
qed

text \<open>
  C9, as the code has it. When a file that exists is opened and loaded, nothing is
  skipped before the parser: the lines of the file (read with universal newlines), blank
  lines and comment lines as well, are sorted and parsed one after the other. If the
  parser accepts every line, the load succeeds with exactly the parsed lines, one entry for
  each line of the file. Otherwise the load stops at the first line, in sorted order, that
  the parser rejects (the lines before it were accepted) and fails with the exception the
  parser raised on that line.
\<close>

theorem from_file_parses_every_line:
  assumes "files w fname = Some content" and "\<not> open_fails flt"
  shows "case from_file flt parse fname w of
           Inr rs \<Rightarrow>
             map Inr rs
             = map (RequirementPlus_parse parse) (sort (readlines (universal_newlines content)))
         | Inl e \<Rightarrow>
             \<exists>pre l post. sort (readlines (universal_newlines content)) = pre @ l # post
               \<and> (\<forall>x\<in>set pre. \<exists>r. RequirementPlus_parse parse x = Inr r)
               \<and> RequirementPlus_parse parse l = Inl e"
  using parse_all_result
    [where parse = parse and ls = "sort (readlines (universal_newlines content))"] assms
  by (simp add: from_file_def from_lines_def)

text \<open>
  A file of the three lines \<^verbatim>\<open>z\<close>, an empty line and \<^verbatim>\<open>a\<close>, the first ended by a
  carriage return and a line feed, the second by a carriage return alone, with a parser
  that raises on \<^verbatim>\<open>a\<close>: in sorted order the empty line comes first and is parsed,
  and the load fails with the exception of the second line.
\<close>

theorem from_file_parses_every_line_witness:
  "files \<lparr>files = [''requirements.txt'' \<mapsto> [CHR ''z'', CHR 0x0D, CHR 0x0A, CHR 0x0D, CHR ''a'']],
          stderr = []\<rparr> ''requirements.txt''
     = Some [CHR ''z'', CHR 0x0D, CHR 0x0A, CHR 0x0D, CHR ''a'']
   \<and> \<not> open_fails no_faults
   \<and> sort (readlines (universal_newlines [CHR ''z'', CHR 0x0D, CHR 0x0A, CHR 0x0D, CHR ''a'']))
     = [''\<newline>'', ''a'', ''z\<newline>'']
   \<and> from_file no_faults
        (\<lambda>l. if l = ''a'' then Inl (ValueError l) else Inr (registry_requirement l []))
        ''requirements.txt''
        \<lparr>files = [''requirements.txt'' \<mapsto> [CHR ''z'', CHR 0x0D, CHR 0x0A, CHR 0x0D, CHR ''a'']],
          stderr = []\<rparr>
     = Inl (ValueError ''a'')"
proof -
  let ?P = "\<lambda>l. if l = ''a'' then (Inl (ValueError l) :: error + Requirement)
                 else Inr (registry_requirement l [])"
  let ?c = "[CHR ''z'', CHR 0x0D, CHR 0x0A, CHR 0x0D, CHR ''a'']"
  let ?w = "\<lparr>files = [''requirements.txt'' \<mapsto> ?c], stderr = []\<rparr>"
  have h: "files ?w ''requirements.txt'' = Some ?c" by simp
  have nf: "\<not> open_fails no_faults" by (simp add: no_faults_def)
  have rl: "sort (readlines (universal_newlines ?c)) = [''\<newline>'', ''a'', ''z\<newline>'']"
    by simp
  have ev: "from_file no_faults ?P ''requirements.txt'' ?w = Inl (ValueError ''a'')"
    by (simp add: from_file_def from_lines_def RequirementPlus_parse_def no_faults_def)
  from from_file_parses_every_line [OF h nf, of ?P] h nf rl ev show ?thesis by simp
qed

text \<open>
  C9 as stated fails. The file holds a comment line and the line \<^verbatim>\<open>foo==1.0\<close>. Were
  the comment line skipped before the parser, the load would give the one entry of the
  requirement line. Whatever the parser is, it does not: the comment line is parsed too,
  so the load either fails or gives two entries.
\<close>

theorem from_file_comment_line_not_skipped:
  "\<not> (\<exists>parse r. from_file no_faults parse ''requirements.txt''
          \<lparr>files = [''requirements.txt'' \<mapsto> ''# comment\<newline>foo==1.0\<newline>''], stderr = []\<rparr>
        = Inr [r])"
  by (auto simp: from_file_def from_lines_def no_faults_def split: sum.splits)

subsection \<open>Writing with a backup\<close>

lemma enter_cases:
  assumes "files w fname = Some original" "\<not> copy_fails flt"
  shows "SafeWriter_enter flt (SafeWriter_init fname md) w =
     (if open_fails flt then
        (Inl (EnvironmentError fname),
         \<lparr>filename = fname, mode = md, fh = None, backup = Some (fname @ ''.bak'')\<rparr>,
         w\<lparr>files := (files w)(fname @ ''.bak'' \<mapsto> original)\<rparr>)
      else
        (Inr fname,
         \<lparr>filename = fname, mode = md, fh = Some fname, backup = Some (fname @ ''.bak'')\<rparr>,
         w\<lparr>files := (files w)(fname @ ''.bak'' \<mapsto> original, fname \<mapsto> [])\<rparr>))"
  using assms
  by (simp add: SafeWriter_enter_def SafeWriter_init_def file_backup_def path_exists_def
      copy2_def open_w_def Let_def)

lemma write_lines_files:
  assumes "write_lines flt self h w = (r, w')" "files w h = Some []"
  shows "(\<forall>p. p \<noteq> h \<longrightarrow> files w' p = files w p)
       \<and> (\<exists>written. files w' h = Some written
             \<and> (case file_data self of
                   Inl e \<Rightarrow> written = []
                 | Inr d \<Rightarrow> prefix written d))"
  using assms
  by (auto simp: write_lines_def file_write_def file_data_def Let_def take_is_prefix
      split: option.splits sum.splits prod.splits if_splits intro: prefix_order.order_trans)

lemma exit_failure_files:
  assumes "SafeWriter_exit flt sw (Some ex) w = (r, w')"
  shows "files w' = files w"
  using assms
  by (auto simp: SafeWriter_exit_def file_close_def print_err_def
      split: option.splits sum.splits prod.splits if_splits)

lemma exit_success_raises_files:
  assumes "SafeWriter_exit flt sw None w = (Inl ex, w')"
  shows "files w' = files w"
  using assms
  by (auto simp: SafeWriter_exit_def file_close_def file_backup_remove_def os_remove_def Let_def
      split: option.splits sum.splits prod.splits if_splits)

text \<open>
  C1, as the code has it. The target exists and its backup copy was made; then
  \<^verbatim>\<open>write\<close> ends with an exception. Afterwards the backup file is there, at the
  target's path with \<^verbatim>\<open>.bak\<close> appended, and its content is the content the target had
  before the call: nothing removes it or rolls anything back. As for the target: if
  \<^verbatim>\<open>open\<close> was what failed, it still has the content it had before the call;
  otherwise it was truncated and holds what was written before the exception, a beginning
  of the new text (nothing at all when the text could not be built).
\<close>

theorem failed_write_keeps_backup:
  assumes target: "files w fname = Some original"
      and copied: "\<not> copy_fails flt"
      and failed: "Requirementz_write flt self fname w = (Inl ex, w')"
  shows "files w' (fname @ ''.bak'') = Some original
       \<and> (if open_fails flt then files w' fname = Some original
          else \<exists>written. files w' fname = Some written
                 \<and> (case file_data self of
                       Inl e \<Rightarrow> written = []
                     | Inr d \<Rightarrow> prefix written d))"
proof (cases "open_fails flt")
  case True
  with failed target show ?thesis
    by (auto simp: Requirementz_write_def enter_cases [OF target copied])
next
  case False
  let ?sw = "\<lparr>filename = fname, mode = ''w'', fh = Some fname, backup = Some (fname @ ''.bak'')\<rparr>"
  let ?w1 = "w\<lparr>files := (files w)(fname @ ''.bak'' \<mapsto> original, fname \<mapsto> [])\<rparr>"
  obtain r w2 where body: "write_lines flt self fname ?w1 = (r, w2)"
    by (cases "write_lines flt self fname ?w1") auto
  have w1: "files ?w1 fname = Some []" by simp
  from write_lines_files [OF body w1]
  have bak2: "files w2 (fname @ ''.bak'') = Some original"
    and tgt2: "\<exists>written. files w2 fname = Some written
                 \<and> (case file_data self of Inl e \<Rightarrow> written = [] | Inr d \<Rightarrow> prefix written d)"
    by auto
  have "files w' = files w2"
  proof (cases r)
    case (Inl e)
    obtain r3 w3 where ex3: "SafeWriter_exit flt ?sw (Some e) w2 = (r3, w3)"
      by (cases "SafeWriter_exit flt ?sw (Some e) w2") auto
    from exit_failure_files [OF ex3] have "files w3 = files w2" .
    moreover from failed False body Inl ex3 have "w' = w3"
      by (auto simp: Requirementz_write_def enter_cases [OF target copied]
          split: sum.splits if_splits)
    ultimately show ?thesis by simp
  next
    case (Inr u)
    obtain r3 w3 where ex3: "SafeWriter_exit flt ?sw None w2 = (r3, w3)"
      by (cases "SafeWriter_exit flt ?sw None w2") auto
    from failed False body Inr ex3 have "w' = w3 \<and> r3 = Inl ex"
      by (auto simp: Requirementz_write_def enter_cases [OF target copied]
          split: sum.splits if_splits)
    with exit_success_raises_files [of flt ?sw w2 ex w3] ex3 show ?thesis by simp
  qed
  with bak2 tgt2 False show ?thesis by simp
qed

text \<open>
  The file holds \<^verbatim>\<open>bar == 2.0\<close>; the first \<^verbatim>\<open>f.write\<close> raises before anything
  reaches the file. The backup holds the old content.
\<close>

theorem failed_write_keeps_backup_witness:
  "files \<lparr>files = [''requirements.txt'' \<mapsto> ''bar == 2.0\<newline>''], stderr = []\<rparr>
        ''requirements.txt'' = Some ''bar == 2.0\<newline>''
   \<and> \<not> copy_fails (no_faults\<lparr>write_fails := (\<lambda>k. Some 0)\<rparr>)
   \<and> fst (Requirementz_write (no_faults\<lparr>write_fails := (\<lambda>k. Some 0)\<rparr>)
          [registry_plus ''foo'' [(''=='', ''1.0'')]] ''requirements.txt''
          \<lparr>files = [''requirements.txt'' \<mapsto> ''bar == 2.0\<newline>''], stderr = []\<rparr>)
     = Inl (EnvironmentError ''requirements.txt'')
   \<and> files (snd (Requirementz_write (no_faults\<lparr>write_fails := (\<lambda>k. Some 0)\<rparr>)
          [registry_plus ''foo'' [(''=='', ''1.0'')]] ''requirements.txt''
          \<lparr>files = [''requirements.txt'' \<mapsto> ''bar == 2.0\<newline>''], stderr = []\<rparr>))
        ''requirements.txt.bak'' = Some ''bar == 2.0\<newline>''"
proof -
  let ?flt = "no_faults\<lparr>write_fails := (\<lambda>k. Some 0)\<rparr>"
  let ?w = "\<lparr>files = [''requirements.txt'' \<mapsto> ''bar == 2.0\<newline>''], stderr = []\<rparr>"
  let ?self = "[registry_plus ''foo'' [(''=='', ''1.0'')]]"
  have h1: "files ?w ''requirements.txt'' = Some ''bar == 2.0\<newline>''" by simp
  have h2: "\<not> copy_fails ?flt" by (simp add: no_faults_def)
  have h3: "Requirementz_write ?flt ?self ''requirements.txt'' ?w
            = (Inl (EnvironmentError ''requirements.txt''),
               snd (Requirementz_write ?flt ?self ''requirements.txt'' ?w))"
    by (simp add: writer_defs file_text_foo)
  from failed_write_keeps_backup [OF h1 h2 h3] h1 h2 h3 show ?thesis
    by (metis append_Cons append_Nil fst_conv)
qed

text \<open>
  C1 as stated fails. In the same run the call ends with the exception, and the target,
  which held \<^verbatim>\<open>bar == 2.0\<close>, is empty afterwards: \<^verbatim>\<open>open(filename, 'w')\<close>
  truncated it. Its content is not the content it had before the call.
\<close>

theorem failed_write_truncates_target:
  "fst (Requirementz_write (no_faults\<lparr>write_fails := (\<lambda>k. Some 0)\<rparr>)
          [registry_plus ''foo'' [(''=='', ''1.0'')]] ''requirements.txt''
          \<lparr>files = [''requirements.txt'' \<mapsto> ''bar == 2.0\<newline>''], stderr = []\<rparr>)
     = Inl (EnvironmentError ''requirements.txt'')
   \<and> files (snd (Requirementz_write (no_faults\<lparr>write_fails := (\<lambda>k. Some 0)\<rparr>)
          [registry_plus ''foo'' [(''=='', ''1.0'')]] ''requirements.txt''
          \<lparr>files = [''requirements.txt'' \<mapsto> ''bar == 2.0\<newline>''], stderr = []\<rparr>))
        ''requirements.txt'' = Some []
   \<and> files \<lparr>files = [''requirements.txt'' \<mapsto> ''bar == 2.0\<newline>''], stderr = []\<rparr>
        ''requirements.txt'' = Some ''bar == 2.0\<newline>''"
  by (simp add: writer_defs file_text_foo)

text \<open>
  When the target exists, the text can be built and nothing fails, \<^verbatim>\<open>write\<close> returns
  normally, the target holds the new text and no backup file is left.
\<close>

lemma write_existing_file_commits:
  assumes "files w fname = Some original" and "file_data self = Inr d"
  shows "fst (Requirementz_write no_faults self fname w) = Inr ()
       \<and> files (snd (Requirementz_write no_faults self fname w)) (fname @ ''.bak'') = None
       \<and> files (snd (Requirementz_write no_faults self fname w)) fname = Some d"
  using assms by (auto simp: writer_defs file_data_def split: sum.splits)

text \<open>
  When neither the target nor a backup file exists and nothing fails, the text is written,
  and then \<^verbatim>\<open>file_backup_remove\<close> raises \<^verbatim>\<open>AttributeError\<close>: it reads
  \<^verbatim>\<open>self.backed_up\<close>, and the attribute that \<^verbatim>\<open>__init__\<close> sets is
  \<^verbatim>\<open>self.backup\<close>.
\<close>

lemma write_missing_file_raises:
  assumes "files w fname = None" "files w (fname @ ''.bak'') = None"
      and "file_data self = Inr d"
  shows "fst (Requirementz_write no_faults self fname w) = Inl (AttributeError ''backed_up'')
       \<and> files (snd (Requirementz_write no_faults self fname w)) fname = Some d"
  using assms by (auto simp: writer_defs file_data_def split: sum.splits)

text \<open>
  C8 fails on the code. Writing one requirement to \<^verbatim>\<open>requirements.txt\<close> in an empty
  directory, with no failure of the file system: the file is written, no backup file
  exists, and the call ends with \<^verbatim>\<open>AttributeError\<close> instead of returning.
\<close>

theorem write_new_file_raises:
  "Requirementz_write no_faults [registry_plus ''foo'' [(''=='', ''1.0'')]] ''requirements.txt''
     \<lparr>files = Map.empty, stderr = []\<rparr>
   = (Inl (AttributeError ''backed_up''),
      \<lparr>files = [''requirements.txt'' \<mapsto> ''foo == 1.0\<newline>''], stderr = []\<rparr>)"
  by (simp add: writer_defs file_text_foo)

end
